theory Spec2Isabelle
  imports Main "HOL-Library.AList"
begin

chapter \<open>The embedding of the rootfs builder (src/rootfs/sub.py)\<close>

section \<open>Exceptions and process exit\<close>

text \<open>
  The Python exceptions the builder raises or catches. \<open>SystemExit\<close> is what
  \<open>sys.exit(n)\<close> raises; it derives from \<open>BaseException\<close> only, so neither
  \<open>except Exception\<close> nor \<open>except OSError\<close> nor
  \<open>except subprocess.CalledProcessError\<close> catches it. \<open>FileNotFoundError\<close> and
  \<open>FileExistsError\<close> are subclasses of \<open>OSError\<close>; \<open>OtherOSError\<close> stands for
  every other \<open>OSError\<close> (such as \<open>PermissionError\<close> or the \<open>OSError\<close> of an
  executable of the wrong format), \<open>OtherException\<close> for every other subclass of
  \<open>Exception\<close>. \<open>CalledProcessError\<close> carries its \<open>returncode\<close>, which is
  \<open>None\<close> when the code builds it from a process it never waited for.
\<close>

datatype exc =
    SystemExit nat
  | FileNotFoundError
  | FileExistsError
  | OtherOSError
  | CalledProcessError "nat option"
  | UnicodeDecodeError
  | TypeError
  | OtherException

fun is_Exception :: "exc \<Rightarrow> bool" where
  "is_Exception (SystemExit _) = False"
| "is_Exception _ = True"

fun is_OSError :: "exc \<Rightarrow> bool" where
  "is_OSError FileNotFoundError = True"
| "is_OSError FileExistsError = True"
| "is_OSError OtherOSError = True"
| "is_OSError _ = False"

fun is_CalledProcessError :: "exc \<Rightarrow> bool" where
  "is_CalledProcessError (CalledProcessError _) = True"
| "is_CalledProcessError _ = False"

section \<open>Python string primitives\<close>

text \<open>
  Strings are lists of characters with code points below 256. \<open>py_isspace\<close> lists the
  code points below 256 for which \<open>str.isspace\<close> holds. \<open>py_upper\<close> is \<open>str.upper\<close>
  on such strings: the letters \<open>a\<close> to \<open>z\<close> and the Latin-1 letters \<open>0xE0\<close> to
  \<open>0xFE\<close> (\<open>0xF7\<close>, the division sign, apart) move down by \<open>0x20\<close>, and \<open>0xDF\<close>
  becomes \<open>SS\<close>. The upper-case forms of \<open>0xB5\<close> and \<open>0xFF\<close> are \<open>U+039C\<close> and
  \<open>U+0178\<close>, which no character of this type represents: the two are left as they
  are, and a feature name that holds one of them is outside the model.
\<close>

definition py_isspace :: "char \<Rightarrow> bool" where
  "py_isspace c = (c \<in> set [CHR 0x09, CHR 0x0A, CHR 0x0B, CHR 0x0C, CHR 0x0D,
                              CHR 0x1C, CHR 0x1D, CHR 0x1E, CHR 0x1F, CHR 0x20,
                              CHR 0x85, CHR 0xA0])"

definition py_strip :: "string \<Rightarrow> string" where
  "py_strip s = rev (dropWhile py_isspace (rev (dropWhile py_isspace s)))"

definition py_upper_char :: "char \<Rightarrow> string" where
  "py_upper_char c =
     (case map_of (zip ''abcdefghijklmnopqrstuvwxyz'' ''ABCDEFGHIJKLMNOPQRSTUVWXYZ'') c of
        Some u \<Rightarrow> [u]
      | None \<Rightarrow>
          if c = CHR 0xDF then ''SS''
          else if 224 \<le> (of_char c :: nat) \<and> (of_char c :: nat) \<le> 254 \<and> c \<noteq> CHR 0xF7
          then [char_of ((of_char c :: nat) - 32)]
          else [c])"

definition py_upper :: "string \<Rightarrow> string" where
  "py_upper s = concat (map py_upper_char s)"

definition startswith :: "string \<Rightarrow> string \<Rightarrow> bool" where
  "startswith s p = (take (length p) s = p)"

definition endswith :: "string \<Rightarrow> string \<Rightarrow> bool" where
  "endswith s p = (length p \<le> length s \<and> drop (length s - length p) s = p)"

section \<open>Feature-toggle config patcher (configure_and_install_busybox, lines 201-233)\<close>

text \<open>
  \<open>feature_pattern\<close> is the f-string \<open>CONFIG_{feature.upper()}=\<close>. \<open>patch_line\<close> is
  the inner \<open>for feature in disabled_features\<close> loop together with the
  \<open>if not modified\<close> that follows it: it returns what one input line contributes to
  \<open>modified_lines\<close>. A line that starts with the pattern but does not end in \<open>=y\<close> or
  \<open>=m\<close> does not leave the loop; the already-disabled branch sets \<open>modified\<close> and
  leaves the loop without appending anything.
\<close>

definition feature_pattern :: "string \<Rightarrow> string" where
  "feature_pattern feature = ''CONFIG_'' @ py_upper feature @ ''=''"

fun patch_line :: "string list \<Rightarrow> string \<Rightarrow> string list" where
  "patch_line [] line = [line]"
| "patch_line (feature # rest) line =
     (if startswith line (feature_pattern feature) then
        (if endswith (py_strip line) ''=y'' \<or> endswith (py_strip line) ''=m''
         then [''# '' @ feature_pattern feature @ '' is not set\<newline>'']
         else patch_line rest line)
      else if py_strip line = ''# '' @ feature_pattern feature @ '' is not set'' then []
      else patch_line rest line)"

definition patch_lines :: "string list \<Rightarrow> string list \<Rightarrow> string list" where
  "patch_lines disabled_features lines = concat (map (patch_line disabled_features) lines)"

text \<open>
  The patching phase as a whole: \<open>if disabled_features:\<close> guards the block, and any
  exception while reading or writing the file ends the process with status 1
  (\<open>io_ok\<close> says whether the file could be read and written).
\<close>

definition config_patch_phase :: "string list \<Rightarrow> bool \<Rightarrow> string list \<Rightarrow> exc + string list" where
  "config_patch_phase disabled_features io_ok config_lines =
     (if disabled_features = [] then Inr config_lines
      else if io_ok then Inr (patch_lines disabled_features config_lines)
      else Inl (SystemExit 1))"

text \<open>The enabled form of a feature's line, as the patcher itself tests it.\<close>

definition enabled_line :: "string \<Rightarrow> string \<Rightarrow> bool" where
  "enabled_line feature line =
     (startswith line (feature_pattern feature) \<and>
      (endswith (py_strip line) ''=y'' \<or> endswith (py_strip line) ''=m''))"

section \<open>The host: external commands and the scoped mount point\<close>

text \<open>
  What the environment decides: the effective user id, how each external command ends
  (\<open>subprocess.run\<close> with \<open>check=True\<close> and \<open>text=True\<close>: an exit status with
  output that decodes, a missing executable, another \<open>OSError\<close> when spawning, or
  an exit status with output that does not decode), and whether \<open>tempfile.mkdtemp\<close>,
  \<open>shutil.rmtree\<close>, \<open>Path.write_text\<close> and the directory tests succeed.
  \<open>mount_dir\<close> is the path \<open>mkdtemp\<close> returns. For the device nodes,
  \<open>node_exists\<close> answers \<open>dev_path.exists()\<close> and \<open>mknod_raises\<close> says what
  \<open>os.mknod\<close> raises at a path, if anything. \<open>py_raises\<close> does the same for the
  blocks of Python file operations of \<open>create_initramfs\<close> that are modelled as one
  step each.
\<close>

datatype proc = Exit nat | NoExecutable | SpawnError | Undecodable nat

record env =
  euid :: nat
  proc_of :: "string list \<Rightarrow> proc"
  mount_dir :: string
  mkdtemp_ok :: bool
  rmtree_ok :: bool
  rootfs_is_dir :: bool
  firmware_exists :: bool
  boot_is_dir :: bool
  write_ok :: "string \<Rightarrow> bool"
  busybox_exists :: bool
  py_raises :: "string \<Rightarrow> exc option"
  node_exists :: "string \<Rightarrow> bool"
  mknod_raises :: "string \<Rightarrow> exc option"

text \<open>
  What one call does, in order: the commands it spawns, the Python file operations it
  attempts and the diagnostics it prints (progress messages are left out).
\<close>

datatype msg =
    NeedsRoot "string list"
  | CommandOk "string list"
  | CommandNotFound "string list"
  | CommandFailed "string list" nat
  | RootRequired
  | NotADirectory
  | FallocateFallback
  | CriticalError
  | UmountWarning
  | RmtreeWarning
  | BusyboxMissing
  | DeviceNodeWarning string
  | DeviceNodeUnexpected string

datatype event =
    Ran "string list"
  | Print msg
  | Mkdtemp
  | Rmtree
  | WriteText string
  | Did string
  | Mknod string nat "nat \<times> nat"

text \<open>
  The state of one call: its log, the local variable \<open>temp_mount_point\<close> (\<open>False\<close>
  is \<open>None\<close>), and the two facts about the scoped mount point that the cleanup
  reads: whether the directory exists and whether something is mounted on it.
\<close>

record host =
  events :: "event list"
  temp_mount_point :: bool
  mp_exists :: bool
  mp_mounted :: bool

definition fresh_host :: host where
  "fresh_host = \<lparr>events = [], temp_mount_point = False, mp_exists = False, mp_mounted = False\<rparr>"

type_synonym step = "host \<Rightarrow> (exc + unit) \<times> host"

definition emit :: "event \<Rightarrow> host \<Rightarrow> host" where
  "emit e h = h\<lparr>events := events h @ [e]\<rparr>"

definition say :: "msg \<Rightarrow> step" where
  "say m h = (Inr (), emit (Print m) h)"

definition raise :: "exc \<Rightarrow> step" where
  "raise e h = (Inl e, h)"

definition seq :: "step \<Rightarrow> step \<Rightarrow> step" where
  "seq f g h = (case f h of (Inl e, h') \<Rightarrow> (Inl e, h') | (Inr _, h') \<Rightarrow> g h')"

fun seqs :: "step list \<Rightarrow> step" where
  "seqs [] = (\<lambda>h. (Inr (), h))"
| "seqs (f # fs) = seq f (seqs fs)"

text \<open>
  \<open>try: body except <class> as e: handler\<close> and \<open>try: body finally: final\<close>.
  \<open>printing m\<close> is a handler that prints a message with \<open>{e}\<close> in it: formatting
  a \<open>CalledProcessError\<close> whose \<open>returncode\<close> is \<open>None\<close> raises \<open>TypeError\<close>
  (its \<open>__str__\<close> formats the code with \<open>%d\<close>).
\<close>

definition try_except :: "step \<Rightarrow> (exc \<Rightarrow> bool) \<Rightarrow> (exc \<Rightarrow> step) \<Rightarrow> step" where
  "try_except body catches handler h =
     (case body h of
        (Inl e, h') \<Rightarrow> if catches e then handler e h' else (Inl e, h')
      | (Inr u, h') \<Rightarrow> (Inr u, h'))"

definition printing :: "msg \<Rightarrow> exc \<Rightarrow> step" where
  "printing m e = (if e = CalledProcessError None then raise TypeError else say m)"

definition try_finally :: "step \<Rightarrow> step \<Rightarrow> step" where
  "try_finally body final h =
     (case body h of
        (r, h') \<Rightarrow> (case final h' of (Inl e, h'') \<Rightarrow> (Inl e, h'') | (Inr _, h'') \<Rightarrow> (r, h'')))"

text \<open>
  A command that exits with status 0 has done its work: \<open>mount\<close> leaves the image
  mounted on the mount point, \<open>umount\<close> leaves nothing mounted there. A command that
  fails changes nothing.
\<close>

definition tool_effect :: "string list \<Rightarrow> host \<Rightarrow> host" where
  "tool_effect commands h =
     (if take 1 commands = [''mount''] then h\<lparr>mp_mounted := True\<rparr>
      else if take 1 commands = [''umount''] then h\<lparr>mp_mounted := False\<rparr>
      else h)"

section \<open>run_command (lines 62-108)\<close>

text \<open>
  The two \<open>except\<close> clauses catch \<open>FileNotFoundError\<close> and \<open>CalledProcessError\<close>
  and end in \<open>sys.exit(1)\<close>. Nothing catches another \<open>OSError\<close> of the spawn, nor
  the \<open>UnicodeDecodeError\<close> that \<open>subprocess.run\<close> raises while it decodes the
  captured output, before it looks at the exit status.
\<close>

definition run_command :: "env \<Rightarrow> string list \<Rightarrow> bool \<Rightarrow> step" where
  "run_command env commands check_root h =
     (if check_root \<and> euid env \<noteq> 0 then (Inl (SystemExit 1), emit (Print (NeedsRoot commands)) h)
      else
        (case proc_of env commands of
           Exit rc \<Rightarrow>
             if rc = 0
             then (Inr (), emit (Print (CommandOk commands)) (tool_effect commands (emit (Ran commands) h)))
             else (Inl (SystemExit 1), emit (Print (CommandFailed commands rc)) (emit (Ran commands) h))
         | NoExecutable \<Rightarrow>
             (Inl (SystemExit 1), emit (Print (CommandNotFound (take 1 commands))) (emit (Ran commands) h))
         | SpawnError \<Rightarrow> (Inl OtherOSError, emit (Ran commands) h)
         | Undecodable rc \<Rightarrow>
             (Inl UnicodeDecodeError,
              if rc = 0 then tool_effect commands (emit (Ran commands) h) else emit (Ran commands) h)))"

section \<open>Disk image packager (create_rootfs_ext4_image, create_bootfs_vfat_image)\<close>

text \<open>\<open>str_nat\<close> is \<open>str\<close> on a non-negative integer, as the f-strings format the size.\<close>

definition digit_char :: "nat \<Rightarrow> char" where
  "digit_char d = ''0123456789'' ! (d mod 10)"

function str_nat :: "nat \<Rightarrow> string" where
  "str_nat n = (if n < 10 then [digit_char n] else str_nat (n div 10) @ [digit_char (n mod 10)])"
  by pat_completeness auto
termination
  by (relation "measure id") auto

declare str_nat.simps [simp del]

definition mkdtemp :: "env \<Rightarrow> step" where
  "mkdtemp env h =
     (if mkdtemp_ok env
      then (Inr (), (emit Mkdtemp h)\<lparr>temp_mount_point := True, mp_exists := True\<rparr>)
      else (Inl OtherOSError, h))"

definition write_text :: "env \<Rightarrow> string \<Rightarrow> step" where
  "write_text env name h =
     (if write_ok env name then (Inr (), emit (WriteText name) h) else (Inl OtherOSError, h))"

definition fallocate_cmd :: "string \<Rightarrow> nat \<Rightarrow> string list" where
  "fallocate_cmd image_output_path image_size_mb =
     [''fallocate'', ''-l'', str_nat image_size_mb @ ''M'', image_output_path]"

definition dd_cmd :: "string \<Rightarrow> nat \<Rightarrow> string list" where
  "dd_cmd image_output_path image_size_mb =
     [''dd'', ''if=/dev/zero'', ''of='' @ image_output_path, ''bs=1M'', ''count='' @ str_nat image_size_mb]"

definition mount_cmd :: "env \<Rightarrow> string \<Rightarrow> string list" where
  "mount_cmd env image_output_path = [''mount'', image_output_path, mount_dir env]"

definition umount_cmd :: "env \<Rightarrow> string list" where
  "umount_cmd env = [''umount'', mount_dir env]"

definition rsync_cmd :: "env \<Rightarrow> string \<Rightarrow> string list" where
  "rsync_cmd env source_dir =
     [''rsync'', ''-a'', ''--info=progress2'', source_dir @ ''/'', mount_dir env @ ''/'']"

text \<open>
  Image allocation (lines 465-472): \<open>fallocate\<close> inside
  \<open>try ... except subprocess.CalledProcessError\<close>, whose handler runs \<open>dd\<close>.
\<close>

definition allocate_image :: "env \<Rightarrow> string \<Rightarrow> nat \<Rightarrow> step" where
  "allocate_image env image_output_path image_size_mb =
     try_except
       (run_command env (fallocate_cmd image_output_path image_size_mb) True)
       is_CalledProcessError
       (\<lambda>e. seqs [say FallocateFallback,
                   run_command env (dd_cmd image_output_path image_size_mb) True])"

text \<open>
  The \<open>finally\<close> block (lines 495-514 and 634-653): unmount when the mount point is
  set and \<open>is_mount()\<close> holds, inside \<open>try ... except Exception\<close>; then remove the
  directory when it is set and exists, inside \<open>try ... except Exception\<close>.
\<close>

definition unmount_if_mounted :: "env \<Rightarrow> step" where
  "unmount_if_mounted env h =
     (if temp_mount_point h \<and> mp_mounted h
      then try_except (run_command env (umount_cmd env) True) is_Exception (printing UmountWarning) h
      else (Inr (), h))"

definition remove_mount_point :: "env \<Rightarrow> step" where
  "remove_mount_point env h =
     (if temp_mount_point h \<and> mp_exists h
      then (if rmtree_ok env then (Inr (), (emit Rmtree h)\<lparr>mp_exists := False\<rparr>)
            else (Inr (), emit (Print RmtreeWarning) (emit Rmtree h)))
      else (Inr (), h))"

definition release_mount :: "env \<Rightarrow> step" where
  "release_mount env = seqs [unmount_if_mounted env, remove_mount_point env]"

text \<open>\<open>except Exception as e: print(f"Kritischer Fehler ...: {e}"); sys.exit(1)\<close>.\<close>

definition critical_error :: "exc \<Rightarrow> step" where
  "critical_error e = seqs [printing CriticalError e, raise (SystemExit 1)]"

definition create_rootfs_ext4_image :: "env \<Rightarrow> string \<Rightarrow> string \<Rightarrow> nat \<Rightarrow> (exc + unit) \<times> host" where
  "create_rootfs_ext4_image env rootfs_base_dir image_output_path image_size_mb =
     (if euid env \<noteq> 0 then (Inl (SystemExit 1), emit (Print RootRequired) fresh_host)
      else if \<not> rootfs_is_dir env then (Inl (SystemExit 1), emit (Print NotADirectory) fresh_host)
      else
        try_finally
          (try_except
             (seqs [mkdtemp env,
                    allocate_image env image_output_path image_size_mb,
                    run_command env [''mkfs.ext4'', ''-F'', image_output_path] True,
                    run_command env (mount_cmd env image_output_path) True,
                    run_command env (rsync_cmd env rootfs_base_dir) True])
             is_Exception
             critical_error)
          (release_mount env)
          fresh_host)"

definition fetch_firmware :: "env \<Rightarrow> string \<Rightarrow> step" where
  "fetch_firmware env firmware_clone_dir =
     (if firmware_exists env then run_command env [''git'', ''pull''] False
      else run_command env [''git'', ''clone'', ''https://github.com/raspberrypi/firmware.git'',
                            firmware_clone_dir] False)"

definition require_boot_dir :: "env \<Rightarrow> step" where
  "require_boot_dir env =
     (if boot_is_dir env then seqs [] else seqs [say NotADirectory, raise (SystemExit 1)])"

definition create_bootfs_vfat_image :: "env \<Rightarrow> string \<Rightarrow> string \<Rightarrow> nat \<Rightarrow> (exc + unit) \<times> host" where
  "create_bootfs_vfat_image env output_image_path firmware_clone_dir image_size_mb =
     (if euid env \<noteq> 0 then (Inl (SystemExit 1), emit (Print RootRequired) fresh_host)
      else
        try_finally
          (try_except
             (seqs [fetch_firmware env firmware_clone_dir,
                    require_boot_dir env,
                    mkdtemp env,
                    allocate_image env output_image_path image_size_mb,
                    run_command env [''mkfs.vfat'', ''-F'', ''32'', output_image_path] True,
                    run_command env (mount_cmd env output_image_path) True,
                    run_command env (rsync_cmd env (firmware_clone_dir @ ''/boot'')) True,
                    write_text env ''cmdline.txt'',
                    write_text env ''config.txt''])
             is_Exception
             critical_error)
          (release_mount env)
          fresh_host)"

section \<open>Device node table (create_device_nodes, lines 320-350)\<close>

text \<open>
  A device node is the tuple \<open>(name, major, minor, type_char)\<close> of the source. The
  modes are \<open>0o666 = 438\<close> and \<open>0o660 = 432\<close>; \<open>stat.S_IFCHR = 0o020000\<close> and
  \<open>stat.S_IFBLK = 0o060000\<close>.
\<close>

type_synonym device_node = "string \<times> nat \<times> nat \<times> char"

definition S_IFCHR :: nat where
  "S_IFCHR = 8192"

definition S_IFBLK :: nat where
  "S_IFBLK = 24576"

definition device_nodes :: "device_node list" where
  "device_nodes =
     [(''console'', 5, 1, CHR ''c''),
      (''null'', 1, 3, CHR ''c''),
      (''zero'', 1, 5, CHR ''c''),
      (''random'', 1, 8, CHR ''c''),
      (''urandom'', 1, 9, CHR ''c''),
      (''tty'', 5, 0, CHR ''c''),
      (''tty0'', 4, 0, CHR ''c''),
      (''tty1'', 4, 1, CHR ''c'')]"

text \<open>
  \<open>if not dev_path.exists(): os.mknod(dev_path, mode | type, os.makedev(major, minor))\<close>,
  with no handler around it.
\<close>

definition mknod_if_missing :: "env \<Rightarrow> string \<Rightarrow> device_node \<Rightarrow> step" where
  "mknod_if_missing env dev_dir node h =
     (case node of (name, major, minor, type_char) \<Rightarrow>
        let dev_path = dev_dir @ ''/'' @ name in
        if node_exists env dev_path then (Inr (), h)
        else
          let mode = (if type_char = CHR ''c'' then 438 else 432) in
          (case mknod_raises env dev_path of
             None \<Rightarrow>
               (Inr (), emit (Mknod dev_path
                                (or mode (if type_char = CHR ''c'' then S_IFCHR else S_IFBLK))
                                (major, minor)) h)
           | Some e \<Rightarrow> (Inl e, h)))"

text \<open>\<open>try: body except <class1>: handler1 except <class2>: handler2\<close>.\<close>

definition try_except2 ::
  "step \<Rightarrow> (exc \<Rightarrow> bool) \<Rightarrow> (exc \<Rightarrow> step) \<Rightarrow> (exc \<Rightarrow> bool) \<Rightarrow> (exc \<Rightarrow> step) \<Rightarrow> step" where
  "try_except2 body catches1 handler1 catches2 handler2 h =
     (case body h of
        (Inl e, h') \<Rightarrow>
          if catches1 e then handler1 e h' else if catches2 e then handler2 e h'
          else (Inl e, h')
      | (Inr u, h') \<Rightarrow> (Inr u, h'))"

text \<open>
  The body of the loop of \<open>create_device_nodes\<close>: the creation inside
  \<open>try ... except OSError ... except Exception\<close>, both handlers printing only.
\<close>

definition create_device_node :: "env \<Rightarrow> string \<Rightarrow> device_node \<Rightarrow> step" where
  "create_device_node env dev_dir node =
     try_except2 (mknod_if_missing env dev_dir node)
       is_OSError (printing (DeviceNodeWarning (fst node)))
       is_Exception (printing (DeviceNodeUnexpected (fst node)))"

definition create_device_nodes :: "env \<Rightarrow> string \<Rightarrow> step" where
  "create_device_nodes env rootfs_dir =
     seqs (map (create_device_node env (rootfs_dir @ ''/dev'')) device_nodes)"

section \<open>Archive packager (create_initramfs, lines 751-938)\<close>

text \<open>
  The device nodes of the staging tree (lines 878-888) are created by the bare
  \<open>mknod_if_missing\<close>: the loop has no \<open>try\<close> of its own, so whatever \<open>os.mknod\<close>
  raises reaches the function's \<open>except Exception\<close>. The blocks of Python file
  operations around it are one step each, named by what they do, which either
  completes or raises what \<open>py_raises\<close> says: creating the staging directories
  (lines 783-790), copying the executable (793-794), resolving and copying the
  libraries (811-831), writing the init script (870-872), starting \<open>find\<close> and
  \<open>cpio\<close> and reading the archive from the pipe (898-902), writing the archive to a
  file (909-910) and moving the result (922). The staging directory takes the place
  of the scoped directory of the host: \<open>temp_mount_point\<close> and \<open>mp_exists\<close> stand
  for \<open>temp_initramfs_staging_dir\<close> and its existence.

  The archive step (lines 898-907) tests \<open>find_proc.returncode != 0\<close> without ever
  waiting for \<open>find_proc\<close>: the attribute is still \<open>None\<close>, the test holds, and
  \<open>CalledProcessError(None, ...)\<close> is raised whenever the step is reached.
\<close>

definition initramfs_device_nodes :: "device_node list" where
  "initramfs_device_nodes =
     [(''console'', 5, 1, CHR ''c''),
      (''null'', 1, 3, CHR ''c''),
      (''zero'', 1, 5, CHR ''c''),
      (''tty'', 5, 0, CHR ''c'')]"

definition py_op :: "env \<Rightarrow> string \<Rightarrow> step" where
  "py_op env what h =
     (case py_raises env what of None \<Rightarrow> (Inr (), emit (Did what) h) | Some e \<Rightarrow> (Inl e, h))"

definition require_busybox :: "env \<Rightarrow> step" where
  "require_busybox env =
     (if busybox_exists env then seqs [] else seqs [say BusyboxMissing, raise (SystemExit 1)])"

definition archive_pipeline :: "env \<Rightarrow> step" where
  "archive_pipeline env =
     seqs [py_op env ''start find and cpio'', raise (CalledProcessError None)]"

definition create_initramfs :: "env \<Rightarrow> string \<Rightarrow> (exc + unit) \<times> host" where
  "create_initramfs env output_initramfs_path =
     (if euid env \<noteq> 0 then (Inl (SystemExit 1), emit (Print RootRequired) fresh_host)
      else
        try_finally
          (try_except
             (seqs [mkdtemp env,
                    require_busybox env,
                    py_op env ''create staging directories'',
                    py_op env ''copy busybox'',
                    run_command env [mount_dir env @ ''/bin/busybox'', ''--install'', ''-s'',
                                     mount_dir env @ ''/bin''] False,
                    run_command env [mount_dir env @ ''/bin/busybox'', ''--install'', ''-s'',
                                     mount_dir env @ ''/sbin''] False,
                    py_op env ''copy libraries'',
                    py_op env ''write init'',
                    seqs (map (mknod_if_missing env (mount_dir env @ ''/dev'')) initramfs_device_nodes),
                    archive_pipeline env,
                    py_op env ''write cpio archive'',
                    run_command env [''gzip'', ''-f'', mount_dir env @ ''/initramfs.cpio''] False,
                    py_op env ''move archive''])
             is_Exception
             critical_error)
          (remove_mount_point env)
          fresh_host)"

section \<open>Directory scaffold builder (create_dirs, lines 113-129)\<close>

text \<open>
  A path is its list of components: relative to the working directory \<open>[]\<close>, or
  absolute when its first component is \<open>/\<close>. The file system maps the paths that
  exist to a directory with its mode or to a file with its mode and content.
\<close>

type_synonym path = "string list"

datatype node = Dir nat | File nat string

type_synonym fs = "(path \<times> node) list"

definition fresh_fs :: fs where
  "fresh_fs = [([], Dir 493)]"

fun split_on :: "char \<Rightarrow> string \<Rightarrow> string list" where
  "split_on c [] = [[]]"
| "split_on c (x # xs) =
     (if x = c then [] # split_on c xs
      else (case split_on c xs of [] \<Rightarrow> [[x]] | w # ws \<Rightarrow> (x # w) # ws))"

text \<open>
  \<open>base / s\<close> of pathlib (POSIX): the components of \<open>s\<close> with the empty ones and
  \<open>.\<close> dropped, appended to \<open>base\<close> when \<open>s\<close> is relative, and standing alone
  when \<open>s\<close> is absolute.
\<close>

definition components :: "string \<Rightarrow> string list" where
  "components s = filter (\<lambda>seg. seg \<noteq> [] \<and> seg \<noteq> ''.'') (split_on CHR ''/'' s)"

definition pjoin :: "path \<Rightarrow> string \<Rightarrow> path" where
  "pjoin base s = (if startswith s ''/'' then ''/'' # components s else base @ components s)"

definition is_dir :: "fs \<Rightarrow> path \<Rightarrow> bool" where
  "is_dir fs p = (case map_of fs p of Some (Dir _) \<Rightarrow> True | _ \<Rightarrow> False)"

text \<open>
  \<open>os.mkdir\<close>: \<open>FileNotFoundError\<close> when the parent is missing, another \<open>OSError\<close>
  (\<open>NotADirectoryError\<close>) when the parent is a file, \<open>FileExistsError\<close> when the path
  exists; otherwise the directory is created with mode \<open>dir_mode\<close>
  (\<open>0o777 & ~umask\<close>).
\<close>

definition os_mkdir :: "nat \<Rightarrow> path \<Rightarrow> fs \<Rightarrow> exc + fs" where
  "os_mkdir dir_mode p fs =
     (case map_of fs (butlast p) of
        None \<Rightarrow> Inl FileNotFoundError
      | Some (File _ _) \<Rightarrow> Inl OtherOSError
      | Some (Dir _) \<Rightarrow>
          (case map_of fs p of
             Some _ \<Rightarrow> Inl FileExistsError
           | None \<Rightarrow> Inr (fs @ [(p, Dir dir_mode)])))"

text \<open>
  \<open>Path.mkdir(parents=False, exist_ok=...)\<close>: \<open>FileNotFoundError\<close> is passed on; any
  other \<open>OSError\<close> is passed on unless \<open>exist_ok\<close> holds and the path is a directory.
\<close>

definition mkdir_plain :: "nat \<Rightarrow> bool \<Rightarrow> path \<Rightarrow> fs \<Rightarrow> exc + fs" where
  "mkdir_plain dir_mode exist_ok p fs =
     (case os_mkdir dir_mode p fs of
        Inr fs' \<Rightarrow> Inr fs'
      | Inl e \<Rightarrow>
          if e = FileNotFoundError then Inl e
          else if exist_ok \<and> is_dir fs p then Inr fs
          else Inl e)"

text \<open>
  \<open>Path.mkdir(parents=True, exist_ok=...)\<close>: on \<open>FileNotFoundError\<close> the parent is
  made with \<open>parents=True, exist_ok=True\<close> and the directory itself is then made with
  \<open>parents=False\<close>.
\<close>

function mkdir_parents :: "nat \<Rightarrow> bool \<Rightarrow> path \<Rightarrow> fs \<Rightarrow> exc + fs" where
  "mkdir_parents dir_mode exist_ok p fs =
     (case os_mkdir dir_mode p fs of
        Inr fs' \<Rightarrow> Inr fs'
      | Inl e \<Rightarrow>
          if e = FileNotFoundError then
            (if p = [] then Inl e
             else (case mkdir_parents dir_mode True (butlast p) fs of
                     Inl e' \<Rightarrow> Inl e'
                   | Inr fs' \<Rightarrow> mkdir_plain dir_mode exist_ok p fs'))
          else if exist_ok \<and> is_dir fs p then Inr fs
          else Inl e)"
  by pat_completeness auto
termination
  by (relation "measure (\<lambda>(dir_mode, exist_ok, p, fs). length p)") auto

declare mkdir_parents.simps [simp del]

text \<open>\<open>os.chmod\<close>: \<open>FileNotFoundError\<close> when the path does not exist.\<close>

definition os_chmod :: "path \<Rightarrow> nat \<Rightarrow> fs \<Rightarrow> exc + fs" where
  "os_chmod p mode fs =
     (case map_of fs p of
        None \<Rightarrow> Inl FileNotFoundError
      | Some (Dir _) \<Rightarrow> Inr (AList.update p (Dir mode) fs)
      | Some (File _ content) \<Rightarrow> Inr (AList.update p (File mode content) fs))"

definition build_dir :: path where
  "build_dir = [''build'']"

definition rootfs_dir :: path where
  "rootfs_dir = pjoin build_dir ''rootfs''"

definition rootfs_dirs :: "string list" where
  "rootfs_dirs =
     [''bin'', ''sbin'', ''etc'', ''proc'', ''sys'', ''dev'', ''lib'', ''lib64'', ''home'',
      ''usr'', ''usr/bin'', ''usr/sbin'', ''usr/lib'', ''usr/local'',
      ''var'', ''var/log'', ''var/run'', ''var/tmp'', ''var/lock'',
      ''mnt'', ''opt'', ''srv'',
      ''root'',
      ''home/pi'']"

definition and_then :: "exc + 'a \<Rightarrow> ('a \<Rightarrow> exc + 'b) \<Rightarrow> exc + 'b" where
  "and_then r f = (case r of Inl e \<Rightarrow> Inl e | Inr x \<Rightarrow> f x)"

text \<open>The loop \<open>for d in rootfs_dirs: (rootfs_dir / d).mkdir(exist_ok=True)\<close>.\<close>

fun mkdir_each :: "nat \<Rightarrow> string list \<Rightarrow> fs \<Rightarrow> exc + fs" where
  "mkdir_each dir_mode [] fs = Inr fs"
| "mkdir_each dir_mode (d # ds) fs =
     and_then (mkdir_plain dir_mode True (pjoin rootfs_dir d) fs) (mkdir_each dir_mode ds)"

text \<open>The modes are \<open>0o1777 = 1023\<close> and \<open>0o777 = 511\<close>.\<close>

definition create_dirs :: "nat \<Rightarrow> fs \<Rightarrow> exc + fs" where
  "create_dirs dir_mode fs =
     and_then (mkdir_parents dir_mode True build_dir fs) (\<lambda>fs.
     and_then (mkdir_parents dir_mode True rootfs_dir fs) (\<lambda>fs.
     and_then (mkdir_each dir_mode rootfs_dirs fs) (\<lambda>fs.
     and_then (os_chmod (pjoin rootfs_dir ''tmp'') 1023 fs) (\<lambda>fs.
     and_then (os_chmod (pjoin rootfs_dir ''var/log'') 511 fs) (\<lambda>fs.
     and_then (os_chmod (pjoin rootfs_dir ''var/run'') 511 fs) (\<lambda>fs.
     os_chmod (pjoin rootfs_dir ''var/tmp'') 1023 fs))))))"

section \<open>Dependency resolver (find_dynamic_libraries, lines 658-732)\<close>

text \<open>
  What the resolver reads from its environment: how \<open>readelf -d\<close> on the binary ends
  (its output as \<open>stdout.splitlines()\<close>, a missing tool, or a non-zero exit), which
  paths exist, which are directories, and what the glob
  \<open>Path(cross_compiler_root).glob("**/<triple>*")\<close> yields. \<open>Path(cross_compiler_root)\<close>
  is the one-component path that holds the root string as it is; the toolchain triple
  and the library names are joined to it with \<open>pjoin\<close>.
\<close>

datatype readelf_result = ReadelfOutput "string list" | ReadelfMissing | ReadelfFailed

record sysroot =
  readelf :: "string \<Rightarrow> readelf_result"
  path_exists :: "path \<Rightarrow> bool"
  path_is_dir :: "path \<Rightarrow> bool"
  glob_matches :: "path list"

datatype notice =
    ReadelfNotFound
  | ReadelfError
  | NoCrossCompilerRoot
  | SearchingIn "path list"
  | LibraryNotFound string

text \<open>\<open>sub in s\<close> on strings.\<close>

fun contains :: "string \<Rightarrow> string \<Rightarrow> bool" where
  "contains [] sub = (sub = [])"
| "contains (c # cs) sub = (startswith (c # cs) sub \<or> contains cs sub)"

text \<open>
  \<open>re.search(r"Shared library: \[(.*?)]", line)\<close> and its group 1: the leftmost
  position where the literal prefix stands and a \<open>]\<close> follows with no newline before
  it; the group is the text up to the first such \<open>]\<close>.
\<close>

fun until_bracket :: "string \<Rightarrow> string option" where
  "until_bracket [] = None"
| "until_bracket (c # cs) =
     (if c = CHR '']'' then Some []
      else if c = CHR 0x0A then None
      else map_option ((#) c) (until_bracket cs))"

fun search_shared_library :: "string \<Rightarrow> string option" where
  "search_shared_library [] = None"
| "search_shared_library (c # cs) =
     (if startswith (c # cs) ''Shared library: [''
      then (case until_bracket (drop (length ''Shared library: ['') (c # cs)) of
              Some lib_name \<Rightarrow> Some lib_name
            | None \<Rightarrow> search_shared_library cs)
      else search_shared_library cs)"

text \<open>
  The set \<open>needed_libs\<close>, as a list without duplicates; in which order Python iterates
  over a set is not specified, and nothing proved below depends on the order.
\<close>

definition parse_needed :: "string list \<Rightarrow> string list" where
  "parse_needed lines =
     remdups (List.map_filter search_shared_library
                (filter (\<lambda>line. contains line ''NEEDED'') lines))"

definition rstrip_dash :: "string \<Rightarrow> string" where
  "rstrip_dash s = rev (dropWhile (\<lambda>c. c = CHR ''-'') (rev s))"

definition search_paths :: "sysroot \<Rightarrow> string \<Rightarrow> string \<Rightarrow> path list" where
  "search_paths sr cross_prefix cross_compiler_root =
     (let root = [cross_compiler_root]; triple = rstrip_dash cross_prefix in
      [pjoin (pjoin root triple) ''libc'',
       pjoin (pjoin root triple) ''lib'',
       root @ [''lib''],
       root @ [''usr'', ''lib''],
       pjoin (pjoin (root @ [''usr'']) triple) ''lib'',
       pjoin (pjoin (root @ [''usr'']) triple) ''libc'']
      @ (if path_is_dir sr (root @ [''aarch64-linux-gnu'', ''libc''])
         then [root @ [''aarch64-linux-gnu'', ''libc'', ''lib''],
               root @ [''aarch64-linux-gnu'', ''libc'', ''usr'', ''lib'']]
         else concat (map (\<lambda>p. if path_is_dir sr p \<and> path_is_dir sr (p @ [''lib''])
                                  then [p @ [''lib''], p @ [''usr'', ''lib'']] else [])
                          (glob_matches sr))))"

text \<open>The inner loop over \<open>search_paths\<close>, left when the first existing path is found.\<close>

fun first_existing :: "sysroot \<Rightarrow> path list \<Rightarrow> string \<Rightarrow> path option" where
  "first_existing sr [] lib_name = None"
| "first_existing sr (search_path # rest) lib_name =
     (if path_exists sr (pjoin search_path lib_name) then Some (pjoin search_path lib_name)
      else first_existing sr rest lib_name)"

text \<open>The outer loop: the paths found and the warnings printed, both in order.\<close>

fun resolve_all :: "sysroot \<Rightarrow> path list \<Rightarrow> string list \<Rightarrow> path list \<times> notice list" where
  "resolve_all sr dirs [] = ([], [])"
| "resolve_all sr dirs (lib_name # rest) =
     (case resolve_all sr dirs rest of
        (found, notes) \<Rightarrow>
          (case first_existing sr dirs lib_name of
             Some lib_path \<Rightarrow> (lib_path # found, notes)
           | None \<Rightarrow> (found, LibraryNotFound lib_name # notes)))"

text \<open>
  The result is the returned list and what was printed. An unset
  \<open>cross_compiler_root\<close> (\<open>None\<close> or the empty string) is the empty string.
  \<open>list(set(found_lib_paths))\<close> is \<open>remdups\<close>, again in one of the possible orders.
\<close>

definition find_dynamic_libraries ::
  "sysroot \<Rightarrow> string \<Rightarrow> string \<Rightarrow> string \<Rightarrow> path list \<times> notice list" where
  "find_dynamic_libraries sr cross_prefix binary_path cross_compiler_root =
     (case readelf sr binary_path of
        ReadelfMissing \<Rightarrow> ([], [ReadelfNotFound])
      | ReadelfFailed \<Rightarrow> ([], [ReadelfError])
      | ReadelfOutput lines \<Rightarrow>
          if cross_compiler_root = [] then ([], [NoCrossCompilerRoot])
          else
            (case resolve_all sr (search_paths sr cross_prefix cross_compiler_root)
                    (parse_needed lines) of
               (found, notes) \<Rightarrow>
                 (remdups found,
                  SearchingIn (search_paths sr cross_prefix cross_compiler_root) # notes)))"

text \<open>
  A sysroot for the examples: \<open>readelf\<close> lists \<open>libm.so.6\<close> and \<open>libc.so.6\<close> as needed,
  and the only library file present is \<open>/usr/aarch64-linux-gnu/lib/libc.so.6\<close>.
\<close>

definition libc_only :: sysroot where
  "libc_only =
     \<lparr>readelf = (\<lambda>_. ReadelfOutput
        [''Dynamic section at offset 0xf0d28 contains 26 entries:'',
         ''  Tag        Type                         Name/Value'',
         '' 0x0000000000000001 (NEEDED)             Shared library: [libm.so.6]'',
         '' 0x0000000000000001 (NEEDED)             Shared library: [libc.so.6]'',
         '' 0x000000000000000c (INIT)               0x5a40'']),
      path_exists = (\<lambda>p. p = [''/usr'', ''aarch64-linux-gnu'', ''lib'', ''libc.so.6'']),
      path_is_dir = (\<lambda>p. False),
      glob_matches = []\<rparr>"

section \<open>Permission classifier (set_rootfs_permissions, lines 353-433)\<close>

text \<open>
  The tree is what the classifier sees of it. \<open>walk\<close> is \<open>os.walk(rootfs_base_dir)\<close>:
  the triples \<open>(dirpath, dirnames, filenames)\<close>, in the order of the walk. \<open>resolve\<close>
  gives the file (the number of its inode) that a path leads to, symbolic links
  followed, or \<open>None\<close> when the path leads nowhere: two names of one file, be they hard
  links or a symbolic link and its target, resolve to the same number. \<open>kind\<close> and
  \<open>content\<close> are those of the file. \<open>os.chmod\<close>, \<open>is_dir()\<close>, \<open>is_file()\<close> and
  \<open>read_bytes()\<close> all go through \<open>resolve\<close>; \<open>chmod_fails\<close> and \<open>read_fails\<close> say at
  which paths \<open>os.chmod\<close> and \<open>read_bytes\<close> raise for another reason. The state is
  the mode of each file, by its number, so that a mode set through one name is the
  mode seen through every other name of the file. The warnings printed on a failure
  are left out.
\<close>

datatype file_kind = Directory | Regular | Special

record tree =
  walk :: "(path \<times> string list \<times> string list) list"
  resolve :: "path \<Rightarrow> nat option"
  kind :: "nat \<Rightarrow> file_kind"
  content :: "nat \<Rightarrow> string"
  chmod_fails :: "path \<Rightarrow> bool"
  read_fails :: "path \<Rightarrow> bool"

type_synonym modes = "nat \<Rightarrow> nat option"

definition isdir :: "tree \<Rightarrow> path \<Rightarrow> bool" where
  "isdir t p = (case resolve t p of Some i \<Rightarrow> kind t i = Directory | None \<Rightarrow> False)"

definition isfile :: "tree \<Rightarrow> path \<Rightarrow> bool" where
  "isfile t p = (case resolve t p of Some i \<Rightarrow> kind t i = Regular | None \<Rightarrow> False)"

definition read_bytes :: "tree \<Rightarrow> path \<Rightarrow> exc + string" where
  "read_bytes t p =
     (case resolve t p of
        None \<Rightarrow> Inl FileNotFoundError
      | Some i \<Rightarrow> if read_fails t p then Inl OtherOSError else Inr (content t i))"

text \<open>\<open>os.chmod\<close> inside \<open>try ... except Exception\<close> whose handler only prints.\<close>

definition try_chmod :: "tree \<Rightarrow> path \<Rightarrow> nat \<Rightarrow> modes \<Rightarrow> modes" where
  "try_chmod t p mode m =
     (case resolve t p of
        None \<Rightarrow> m
      | Some i \<Rightarrow> if chmod_fails t p then m else m(i \<mapsto> mode))"

definition path_name :: "path \<Rightarrow> string" where
  "path_name p = (if p = [] then [] else last p)"

text \<open>Pass 1: every directory but the special ones gets \<open>0o755 = 493\<close>.\<close>

definition unclobbered_dirs :: "path \<Rightarrow> path list" where
  "unclobbered_dirs rootfs_base_dir =
     [rootfs_base_dir @ [''tmp''],
      rootfs_base_dir @ [''var'', ''tmp''],
      rootfs_base_dir @ [''var'', ''log''],
      rootfs_base_dir @ [''var'', ''run''],
      rootfs_base_dir @ [''var'', ''lock''],
      rootfs_base_dir @ [''dev'']]"

definition chmod_directories :: "tree \<Rightarrow> path \<Rightarrow> modes \<Rightarrow> modes" where
  "chmod_directories t rootfs_base_dir m =
     fold (\<lambda>(dirpath, dirnames, filenames) m.
             if dirpath \<in> set (unclobbered_dirs rootfs_base_dir) then m
             else try_chmod t dirpath 493 m)
          (walk t) m"

text \<open>
  Pass 2, the condition of the \<open>if\<close> (lines 380-384), evaluated left to right: the
  mode to set (\<open>0o755 = 493\<close> or \<open>0o644 = 420\<close>), or the exception of \<open>read_bytes\<close>,
  which is only called for a file named \<open>*.sh\<close> outside \<open>bin\<close> and \<open>sbin\<close>.
  \<open>by_name\<close> is the last two disjuncts, which look at names only.
\<close>

definition by_name :: "path \<Rightarrow> path \<Rightarrow> nat" where
  "by_name rootfs_base_dir file_path =
     (if path_name file_path = ''rcS'' \<and> path_name (butlast file_path) = ''init.d'' then 493
      else if path_name file_path = ''init'' \<and> butlast file_path = rootfs_base_dir then 493
      else 420)"

definition classify :: "tree \<Rightarrow> path \<Rightarrow> path \<Rightarrow> exc + nat" where
  "classify t rootfs_base_dir file_path =
     (let name = path_name file_path; parent = butlast file_path in
      if path_name parent \<in> set [''bin'', ''sbin''] then Inr 493
      else if path_name (butlast parent) = ''usr'' \<and> path_name parent \<in> set [''bin'', ''sbin'']
        then Inr 493
      else if endswith name ''.sh'' \<and> isfile t file_path
        then (case read_bytes t file_path of
                Inl e \<Rightarrow> Inl e
              | Inr bytes \<Rightarrow>
                  if contains bytes ''#!/bin/sh'' then Inr 493
                  else Inr (by_name rootfs_base_dir file_path))
      else Inr (by_name rootfs_base_dir file_path))"

definition chmod_file :: "tree \<Rightarrow> path \<Rightarrow> path \<Rightarrow> modes \<Rightarrow> modes" where
  "chmod_file t rootfs_base_dir file_path m =
     (case classify t rootfs_base_dir file_path of
        Inl e \<Rightarrow> m
      | Inr mode \<Rightarrow> try_chmod t file_path mode m)"

definition chmod_files :: "tree \<Rightarrow> path \<Rightarrow> modes \<Rightarrow> modes" where
  "chmod_files t rootfs_base_dir m =
     fold (\<lambda>(dirpath, dirnames, filenames) m.
             fold (\<lambda>filename. chmod_file t rootfs_base_dir (dirpath @ [filename])) filenames m)
          (walk t) m"

text \<open>
  Pass 3: the overrides, each under \<open>if d.exists() and d.is_dir()\<close>:
  \<open>0o1777 = 1023\<close>, \<open>0o777 = 511\<close>, and \<open>0o755\<close> for \<open>dev\<close> and the root.
\<close>

definition chmod_if_dir :: "tree \<Rightarrow> nat \<Rightarrow> path \<Rightarrow> modes \<Rightarrow> modes" where
  "chmod_if_dir t mode p m = (if isdir t p then try_chmod t p mode m else m)"

definition apply_overrides :: "tree \<Rightarrow> path \<Rightarrow> modes \<Rightarrow> modes" where
  "apply_overrides t rootfs_base_dir m =
     chmod_if_dir t 493 rootfs_base_dir
       (chmod_if_dir t 493 (rootfs_base_dir @ [''dev''])
          (fold (chmod_if_dir t 511)
             [rootfs_base_dir @ [''var'', ''log''],
              rootfs_base_dir @ [''var'', ''run''],
              rootfs_base_dir @ [''var'', ''lock'']]
             (fold (chmod_if_dir t 1023)
                [rootfs_base_dir @ [''tmp''], rootfs_base_dir @ [''var'', ''tmp'']]
                m)))"

definition set_rootfs_permissions :: "tree \<Rightarrow> path \<Rightarrow> modes \<Rightarrow> modes" where
  "set_rootfs_permissions t rootfs_base_dir m =
     apply_overrides t rootfs_base_dir
       (chmod_files t rootfs_base_dir (chmod_directories t rootfs_base_dir m))"

text \<open>
  The names pass 2 goes through, in its order; what it does through one name (the
  file whose mode it sets and the mode, or nothing when \<open>read_bytes\<close> or \<open>os.chmod\<close>
  raises); and the names through which it sets the mode of file \<open>i\<close>.
\<close>

definition listed_files :: "tree \<Rightarrow> path list" where
  "listed_files t =
     concat (map (\<lambda>(dirpath, dirnames, filenames).
                    map (\<lambda>filename. dirpath @ [filename]) filenames)
                 (walk t))"

definition file_write :: "tree \<Rightarrow> path \<Rightarrow> path \<Rightarrow> (nat \<times> nat) option" where
  "file_write t rootfs_base_dir file_path =
     (case classify t rootfs_base_dir file_path of
        Inl e \<Rightarrow> None
      | Inr mode \<Rightarrow>
          (case resolve t file_path of
             None \<Rightarrow> None
           | Some i \<Rightarrow> if chmod_fails t file_path then None else Some (i, mode)))"

definition effective_names :: "tree \<Rightarrow> path \<Rightarrow> nat \<Rightarrow> path list" where
  "effective_names t rootfs_base_dir i =
     filter (\<lambda>file_path. map_option fst (file_write t rootfs_base_dir file_path) = Some i)
            (listed_files t)"

text \<open>
  A tree for the examples, as \<open>make install\<close> of BusyBox leaves it and with two files
  added. File 10 is the executable, under the names \<open>linuxrc\<close>, \<open>bin/busybox\<close> and
  \<open>bin/sh\<close>; file 11 is \<open>bin/tool\<close>, to which \<open>usr/share/tool\<close> is a link; file 12 is
  \<open>etc/hello\<close>, which starts with a shebang line; file 13 is \<open>etc/init.d/rcS\<close>, which
  is empty. Files 1 to 6 are the directories.
\<close>

definition linked_tree :: tree where
  "linked_tree =
     \<lparr>walk = [([''build'', ''rootfs''], [''bin'', ''etc'', ''usr''], [''linuxrc'']),
              ([''build'', ''rootfs'', ''bin''], [], [''busybox'', ''sh'', ''tool'']),
              ([''build'', ''rootfs'', ''etc''], [''init.d''], [''hello'']),
              ([''build'', ''rootfs'', ''etc'', ''init.d''], [], [''rcS'']),
              ([''build'', ''rootfs'', ''usr''], [''share''], []),
              ([''build'', ''rootfs'', ''usr'', ''share''], [], [''tool''])],
      resolve = map_of
        [([''build'', ''rootfs''], 1),
         ([''build'', ''rootfs'', ''bin''], 2),
         ([''build'', ''rootfs'', ''etc''], 3),
         ([''build'', ''rootfs'', ''etc'', ''init.d''], 4),
         ([''build'', ''rootfs'', ''usr''], 5),
         ([''build'', ''rootfs'', ''usr'', ''share''], 6),
         ([''build'', ''rootfs'', ''linuxrc''], 10),
         ([''build'', ''rootfs'', ''bin'', ''busybox''], 10),
         ([''build'', ''rootfs'', ''bin'', ''sh''], 10),
         ([''build'', ''rootfs'', ''bin'', ''tool''], 11),
         ([''build'', ''rootfs'', ''usr'', ''share'', ''tool''], 11),
         ([''build'', ''rootfs'', ''etc'', ''hello''], 12),
         ([''build'', ''rootfs'', ''etc'', ''init.d'', ''rcS''], 13)],
      kind = (\<lambda>i. if i \<le> 6 then Directory else Regular),
      content = (\<lambda>i. if i = 12 then ''#!/bin/sh\<newline>echo hello\<newline>'' else []),
      chmod_fails = (\<lambda>p. False),
      read_fails = (\<lambda>p. False)\<rparr>"

text \<open>
  What holds of the call's state all through the \<open>try\<close> body and its handler, for the
  image \<open>img\<close>: a mount point that has been set exists, nothing has removed it, and an
  image whose \<open>mount\<close> succeeded is still mounted.
\<close>

definition session_inv :: "env \<Rightarrow> string \<Rightarrow> host \<Rightarrow> bool" where
  "session_inv env img h =
     ((temp_mount_point h \<longrightarrow> mp_exists h) \<and> Rmtree \<notin> set (events h) \<and>
      (Print (CommandOk (mount_cmd env img)) \<in> set (events h) \<longrightarrow> mp_mounted h))"

text \<open>
  Concrete environments for the examples: the process runs as root, every Python file
  operation succeeds, and \<open>failing tool rc\<close> lets every command succeed but \<open>tool\<close>,
  which exits with status \<open>rc\<close>.
\<close>

definition root_env :: "(string list \<Rightarrow> proc) \<Rightarrow> env" where
  "root_env p = \<lparr>euid = 0, proc_of = p, mount_dir = ''/tmp/rootfs_mount_x'', mkdtemp_ok = True,
     rmtree_ok = True, rootfs_is_dir = True, firmware_exists = True, boot_is_dir = True,
     write_ok = (\<lambda>_. True), busybox_exists = True, py_raises = (\<lambda>_. None),
     node_exists = (\<lambda>_. False), mknod_raises = (\<lambda>_. None)\<rparr>"

definition failing :: "string \<Rightarrow> nat \<Rightarrow> string list \<Rightarrow> proc" where
  "failing tool rc commands = (if take 1 commands = [tool] then Exit rc else Exit 0)"

text \<open>An environment in which every \<open>os.mknod\<close> is refused, as it is without the privilege.\<close>

definition mknod_denied :: env where
  "mknod_denied = (root_env (\<lambda>_. Exit 0))\<lparr>mknod_raises := (\<lambda>_. Some OtherOSError)\<rparr>"

chapter \<open>Properties\<close>

section \<open>Config patcher\<close>

lemmas string_prims =
  py_isspace_def py_strip_def py_upper_char_def py_upper_def startswith_def endswith_def
  feature_pattern_def

text \<open>\<open>str.upper\<close> beyond ASCII: \<open>0xDF\<close> becomes two letters, \<open>0xF7\<close> stays.\<close>

lemma py_upper_latin1:
  "py_upper [CHR ''a'', CHR 0xDF, CHR 0xE4, CHR 0xF7, CHR ''_'', CHR ''1''] =
     [CHR ''A'', CHR ''S'', CHR ''S'', CHR 0xC4, CHR 0xF7, CHR ''_'', CHR ''1'']"
  by code_simp

text \<open>
  C1 (idempotence of the patcher). The claim fails on the code: a line the first run
  rewrites to the disabled form is matched by the already-disabled branch on the
  second run, which appends nothing, so the line disappears. With the single feature
  \<open>foo\<close> and the one-line file \<open>CONFIG_FOO=y\<close>, one run yields one line and two runs
  yield the empty file.
\<close>

theorem patch_lines_twice_drops_line:
  "patch_lines [''foo''] [''CONFIG_FOO=y\<newline>''] = [''# CONFIG_FOO= is not set\<newline>'']
   \<and> patch_lines [''foo''] (patch_lines [''foo''] [''CONFIG_FOO=y\<newline>'']) = []
   \<and> patch_lines [''foo''] (patch_lines [''foo''] [''CONFIG_FOO=y\<newline>''])
       \<noteq> patch_lines [''foo''] [''CONFIG_FOO=y\<newline>'']"
  by (simp add: patch_lines_def string_prims)

text \<open>
  C2 (disabled form after patching). The line the patcher writes is built from
  \<open>feature_pattern\<close>, which ends in \<open>=\<close>: for feature \<open>foo\<close> the output line is
  \<open># CONFIG_FOO= is not set\<close>, and the form \<open># CONFIG_FOO is not set\<close> that the
  claim requires is not in the output.
\<close>

theorem patch_lines_disabled_form_has_equals_sign:
  "map py_strip (patch_lines [''foo''] [''CONFIG_FOO=y\<newline>'']) = [''# CONFIG_FOO= is not set'']
   \<and> ''# CONFIG_FOO is not set'' \<notin> set (map py_strip (patch_lines [''foo''] [''CONFIG_FOO=y\<newline>'']))"
  by (simp add: patch_lines_def string_prims)

text \<open>
  The second half of C2 does hold on the code: whatever the file and the feature list,
  no output line is an enabled line (\<open>CONFIG_<FEATURE>=\<close> ... \<open>=y\<close> or \<open>=m\<close>) of a
  requested feature.
\<close>

lemma startswith_hash_config:
  "\<not> startswith (''# '' @ s) (feature_pattern f)"
  by (simp add: startswith_def feature_pattern_def)

lemma patch_line_cases:
  "l \<in> set (patch_line fs line) \<Longrightarrow>
     (l = line \<and> list_all (\<lambda>f. \<not> enabled_line f line) fs)
     \<or> (\<exists>s. l = ''# '' @ s)"
proof (induction fs)
  case Nil
  then show ?case by simp
next
  case (Cons f fs)
  then show ?case
    by (auto simp: enabled_line_def split: if_splits)
qed

lemma no_enabled_line_remains:
  assumes "f \<in> set fs" and "l \<in> set (patch_lines fs ls)"
  shows "\<not> enabled_line f l"
proof -
  from assms(2) obtain line where "line \<in> set ls" and l: "l \<in> set (patch_line fs line)"
    by (auto simp: patch_lines_def)
  from patch_line_cases [OF l] show ?thesis
  proof
    assume "l = line \<and> list_all (\<lambda>f. \<not> enabled_line f line) fs"
    with assms(1) show ?thesis by (auto simp: list_all_iff)
  next
    assume "\<exists>s. l = ''# '' @ s"
    then show ?thesis using startswith_hash_config by (auto simp: enabled_line_def)
  qed
qed

text \<open>
  C10 (empty feature list). With no feature to disable the guarded block is skipped:
  the phase returns normally and the file's lines are the ones it had, whether or not
  the file could have been read or written.
\<close>

theorem config_patch_phase_empty_features:
  "config_patch_phase [] io_ok config_lines = Inr config_lines"
  by (simp add: config_patch_phase_def)

section \<open>run_command and the disk image packager\<close>

lemmas host_defs =
  create_rootfs_ext4_image_def create_bootfs_vfat_image_def try_finally_def try_except_def
  seq_def run_command_def emit_def tool_effect_def mkdtemp_def write_text_def say_def raise_def
  allocate_image_def release_mount_def unmount_if_mounted_def remove_mount_point_def
  critical_error_def fetch_firmware_def require_boot_dir_def fresh_host_def
  fallocate_cmd_def dd_cmd_def mount_cmd_def umount_cmd_def rsync_cmd_def
  root_env_def failing_def str_nat.simps digit_char_def printing_def





text \<open>The handler is dead whatever the command does, not only when it fails.\<close>

lemma run_command_handler_never_runs:
  "try_except (run_command env commands check_root) is_CalledProcessError handler h
     = run_command env commands check_root h"
  by (auto simp: run_command_def try_except_def split: proc.splits)


text \<open>
  C4 (fallback to dd). The claim fails on the code: \<open>run_command\<close> turns the failure of
  \<open>fallocate\<close> into \<open>SystemExit 1\<close>, the \<open>except subprocess.CalledProcessError\<close>
  around it does not catch that, and the call ends with status 1 after the cleanup.
  Neither \<open>dd\<close> nor \<open>mkfs.ext4\<close> is ever run.
\<close>

theorem fallocate_failure_exits_without_dd:
  "create_rootfs_ext4_image (root_env (failing ''fallocate'' 1)) ''build/rootfs'' ''build/rootfs.ext4'' 512 =
     (Inl (SystemExit 1),
      \<lparr>events = [Mkdtemp,
                 Ran [''fallocate'', ''-l'', ''512M'', ''build/rootfs.ext4''],
                 Print (CommandFailed [''fallocate'', ''-l'', ''512M'', ''build/rootfs.ext4''] 1),
                 Rmtree],
       temp_mount_point = True, mp_exists = False, mp_mounted = False\<rparr>)"
  by (simp add: host_defs)


text \<open>Each step of the two pipelines keeps \<open>session_inv\<close>.\<close>

lemma seq_inv:
  assumes "\<And>h. session_inv env img h \<Longrightarrow> session_inv env img (snd (f h))"
    and "\<And>h. session_inv env img h \<Longrightarrow> session_inv env img (snd (g h))"
    and "session_inv env img h"
  shows "session_inv env img (snd (seq f g h))"
proof (cases "f h")
  case (Pair r h')
  with assms(1) [OF assms(3)] have "session_inv env img h'" by simp
  with Pair assms(2) show ?thesis by (cases r) (simp_all add: seq_def)
qed

lemma seqs_inv:
  assumes "\<And>f h. f \<in> set fs \<Longrightarrow> session_inv env img h \<Longrightarrow> session_inv env img (snd (f h))"
    and "session_inv env img h"
  shows "session_inv env img (snd (seqs fs h))"
  using assms
proof (induction fs arbitrary: h)
  case Nil
  then show ?case by simp
next
  case (Cons f fs)
  have "session_inv env img (snd (seq f (seqs fs) h))"
  proof (rule seq_inv)
    show "\<And>h. session_inv env img h \<Longrightarrow> session_inv env img (snd (f h))"
      using Cons.prems(1) by simp
    show "\<And>h. session_inv env img h \<Longrightarrow> session_inv env img (snd (seqs fs h))"
      using Cons.IH Cons.prems(1) by simp
    show "session_inv env img h" by fact
  qed
  then show ?case by simp
qed

lemma try_except_inv:
  assumes "\<And>h. session_inv env img h \<Longrightarrow> session_inv env img (snd (f h))"
    and "\<And>e h. session_inv env img h \<Longrightarrow> session_inv env img (snd (g e h))"
    and "session_inv env img h"
  shows "session_inv env img (snd (try_except f c g h))"
proof (cases "f h")
  case (Pair r h')
  with assms(1) [OF assms(3)] have "session_inv env img h'" by simp
  with Pair assms(2) show ?thesis by (cases r) (simp_all add: try_except_def)
qed

lemma run_command_inv:
  assumes "take 1 c \<noteq> [''umount'']" and "session_inv env img h"
  shows "session_inv env img (snd (run_command env c r h))"
  using assms
  by (auto simp: run_command_def session_inv_def emit_def tool_effect_def mount_cmd_def
           split: proc.splits)

lemma mkdtemp_inv: "session_inv env img h \<Longrightarrow> session_inv env img (snd (mkdtemp env h))"
  by (simp add: mkdtemp_def session_inv_def emit_def)

lemma say_inv:
  "(\<And>c. m \<noteq> CommandOk c) \<Longrightarrow> session_inv env img h \<Longrightarrow> session_inv env img (snd (say m h))"
  by (auto simp add: say_def session_inv_def emit_def)

lemma raise_inv: "session_inv env img h \<Longrightarrow> session_inv env img (snd (raise e h))"
  by (simp add: raise_def)

lemma printing_inv:
  "(\<And>c. m \<noteq> CommandOk c) \<Longrightarrow> session_inv env img h \<Longrightarrow>
     session_inv env img (snd (printing m e h))"
  by (simp add: printing_def say_inv raise_inv)

lemma write_text_inv: "session_inv env img h \<Longrightarrow> session_inv env img (snd (write_text env n h))"
  by (simp add: write_text_def session_inv_def emit_def)

lemma allocate_image_inv:
  assumes "session_inv env img h"
  shows "session_inv env img (snd (allocate_image env p n h))"
  unfolding allocate_image_def
proof (rule try_except_inv [OF _ _ assms])
  show "\<And>h. session_inv env img h \<Longrightarrow>
          session_inv env img (snd (run_command env (fallocate_cmd p n) True h))"
    by (rule run_command_inv) (simp_all add: fallocate_cmd_def)
  show "\<And>e h. session_inv env img h \<Longrightarrow>
          session_inv env img (snd (seqs [say FallocateFallback, run_command env (dd_cmd p n) True] h))"
  proof (rule seqs_inv)
    fix f h
    assume "f \<in> set [say FallocateFallback, run_command env (dd_cmd p n) True]"
      and "session_inv env img h"
    then show "session_inv env img (snd (f h))"
      by (auto simp: dd_cmd_def intro: say_inv run_command_inv)
  qed
qed

lemma critical_error_inv:
  assumes "session_inv env img h"
  shows "session_inv env img (snd (critical_error e h))"
  unfolding critical_error_def
proof (rule seqs_inv [OF _ assms])
  fix f h
  assume "f \<in> set [printing CriticalError e, raise (SystemExit 1)]" and "session_inv env img h"
  then show "session_inv env img (snd (f h))"
    by (auto intro: printing_inv raise_inv)
qed

lemma fetch_firmware_inv:
  "session_inv env img h \<Longrightarrow> session_inv env img (snd (fetch_firmware env d h))"
  by (simp add: fetch_firmware_def run_command_inv)

lemma require_boot_dir_inv:
  assumes "session_inv env img h"
  shows "session_inv env img (snd (require_boot_dir env h))"
proof (cases "boot_is_dir env")
  case True
  with assms show ?thesis by (simp add: require_boot_dir_def)
next
  case False
  have "session_inv env img (snd (seqs [say NotADirectory, raise (SystemExit 1)] h))"
  proof (rule seqs_inv [OF _ assms])
    fix f h
    assume "f \<in> set [say NotADirectory, raise (SystemExit 1)]" and "session_inv env img h"
    then show "session_inv env img (snd (f h))"
      by (auto intro: say_inv raise_inv)
  qed
  with False show ?thesis by (simp add: require_boot_dir_def)
qed

lemma fresh_host_inv: "session_inv env img fresh_host"
  by (simp add: session_inv_def fresh_host_def)

lemma release_mount_clean:
  assumes inv: "session_inv env img h" and tmp: "temp_mount_point h"
    and root: "euid env = 0" and um: "proc_of env (umount_cmd env) = Exit 0"
  shows "\<exists>h'. release_mount env h = (Inr (), h') \<and> temp_mount_point h' \<and> \<not> mp_mounted h' \<and>
           mp_exists h' = (\<not> rmtree_ok env) \<and>
           (\<exists>pre. events h' = pre @ Rmtree # (if rmtree_ok env then [] else [Print RmtreeWarning]) \<and>
                  Rmtree \<notin> set pre \<and>
                  (Print (CommandOk (mount_cmd env img)) \<in> set pre \<longrightarrow> Ran (umount_cmd env) \<in> set pre))"
  using assms
  by (auto simp: release_mount_def seq_def unmount_if_mounted_def remove_mount_point_def
        try_except_def run_command_def emit_def tool_effect_def umount_cmd_def session_inv_def)

lemma release_mount_unset:
  "\<not> temp_mount_point h \<Longrightarrow> release_mount env h = (Inr (), h)"
  by (simp add: release_mount_def seq_def unmount_if_mounted_def remove_mount_point_def)

lemma guarded_session:
  assumes body: "\<And>h. session_inv env img h \<Longrightarrow> session_inv env img (snd (body h))"
    and root: "euid env = 0" and um: "proc_of env (umount_cmd env) = Exit 0"
    and res: "try_finally (try_except body is_Exception critical_error) (release_mount env) fresh_host = (r, h')"
    and tmp: "temp_mount_point h'"
  shows "\<not> mp_mounted h' \<and> mp_exists h' = (\<not> rmtree_ok env) \<and>
           (\<exists>pre. events h' = pre @ Rmtree # (if rmtree_ok env then [] else [Print RmtreeWarning]) \<and>
                  Rmtree \<notin> set pre \<and>
                  (Print (CommandOk (mount_cmd env img)) \<in> set pre \<longrightarrow> Ran (umount_cmd env) \<in> set pre))"
proof -
  obtain rb hb where b: "try_except body is_Exception critical_error fresh_host = (rb, hb)"
    by (cases "try_except body is_Exception critical_error fresh_host")
  have "session_inv env img (snd (try_except body is_Exception critical_error fresh_host))"
    by (rule try_except_inv [OF body critical_error_inv fresh_host_inv])
  with b have inv: "session_inv env img hb" by simp
  show ?thesis
  proof (cases "temp_mount_point hb")
    case True
    from release_mount_clean [OF inv True root um] obtain h2 where
      h2: "release_mount env hb = (Inr (), h2)" and
      rest: "temp_mount_point h2" "\<not> mp_mounted h2" "mp_exists h2 = (\<not> rmtree_ok env)"
        "\<exists>pre. events h2 = pre @ Rmtree # (if rmtree_ok env then [] else [Print RmtreeWarning]) \<and>
                  Rmtree \<notin> set pre \<and>
                  (Print (CommandOk (mount_cmd env img)) \<in> set pre \<longrightarrow> Ran (umount_cmd env) \<in> set pre)"
      by blast
    from res b h2 have "h' = h2" by (simp add: try_finally_def)
    with rest show ?thesis by simp
  next
    case False
    from res b release_mount_unset [OF False] have "h' = hb" by (simp add: try_finally_def)
    with False tmp show ?thesis by simp
  qed
qed


text \<open>
  C3 (cleanup on every exit path). The claim fails on the code on the exit path where
  the \<open>umount\<close> command itself fails: \<open>run_command\<close> raises \<open>SystemExit\<close> inside the
  \<open>finally\<close> block, the \<open>except Exception\<close> around the unmount does not catch it,
  and the removal of the mount point, which the claim has attempted on every exit
  path, is never attempted. With every step of either packager succeeding and
  \<open>umount\<close> exiting with status 32, the call ends in \<open>SystemExit 1\<close> with the image
  still mounted and the directory still there.
\<close>

theorem umount_failure_skips_removal:
  "fst (create_rootfs_ext4_image (root_env (failing ''umount'' 32)) ''build/rootfs'' ''build/rootfs.ext4'' 512)
     = Inl (SystemExit 1)
   \<and> mp_exists (snd (create_rootfs_ext4_image (root_env (failing ''umount'' 32)) ''build/rootfs'' ''build/rootfs.ext4'' 512))
   \<and> mp_mounted (snd (create_rootfs_ext4_image (root_env (failing ''umount'' 32)) ''build/rootfs'' ''build/rootfs.ext4'' 512))
   \<and> Rmtree \<notin> set (events (snd (create_rootfs_ext4_image (root_env (failing ''umount'' 32)) ''build/rootfs'' ''build/rootfs.ext4'' 512)))
   \<and> fst (create_bootfs_vfat_image (root_env (failing ''umount'' 32)) ''build/bootfs.vfat'' ''build/raspberrypi-firmware'' 256)
     = Inl (SystemExit 1)
   \<and> mp_exists (snd (create_bootfs_vfat_image (root_env (failing ''umount'' 32)) ''build/bootfs.vfat'' ''build/raspberrypi-firmware'' 256))
   \<and> mp_mounted (snd (create_bootfs_vfat_image (root_env (failing ''umount'' 32)) ''build/bootfs.vfat'' ''build/raspberrypi-firmware'' 256))
   \<and> Rmtree \<notin> set (events (snd (create_bootfs_vfat_image (root_env (failing ''umount'' 32)) ''build/bootfs.vfat'' ''build/raspberrypi-firmware'' 256)))"
  by (simp add: host_defs)

text \<open>
  On the other exit paths the cleanup is as C3 says. Whatever the outcome \<open>r\<close> of
  either packager (normal return, or \<open>SystemExit\<close> from a failed tool or from the
  handler of an exception), once the mount point has been set and provided the
  \<open>umount\<close> command succeeds when it is run: the removal of the mount point is
  attempted, as the last action but for its own warning; if the image had been
  mounted, the \<open>umount\<close> was run before it; and if the removal succeeds, the directory
  is gone and nothing is mounted on it.
\<close>

lemma image_cleanup:
  assumes um: "proc_of env (umount_cmd env) = Exit 0"
    and res: "create_rootfs_ext4_image env src img size_mb = (r, h')
              \<or> create_bootfs_vfat_image env img src size_mb = (r, h')"
    and tmp: "temp_mount_point h'"
  shows "(\<exists>pre. events h' = pre @ Rmtree # (if rmtree_ok env then [] else [Print RmtreeWarning]) \<and>
                Rmtree \<notin> set pre \<and>
                (Print (CommandOk (mount_cmd env img)) \<in> set pre \<longrightarrow> Ran (umount_cmd env) \<in> set pre))
         \<and> (rmtree_ok env \<longrightarrow> \<not> mp_exists h' \<and> \<not> mp_mounted h')"
proof -
  have root: "euid env = 0"
    using res tmp
    by (auto simp: create_rootfs_ext4_image_def create_bootfs_vfat_image_def emit_def fresh_host_def
             split: if_splits)
  from res show ?thesis
  proof
    assume a: "create_rootfs_ext4_image env src img size_mb = (r, h')"
    have dir: "rootfs_is_dir env"
      using a tmp root
      by (auto simp: create_rootfs_ext4_image_def emit_def fresh_host_def split: if_splits)
    have "\<not> mp_mounted h' \<and> mp_exists h' = (\<not> rmtree_ok env) \<and>
           (\<exists>pre. events h' = pre @ Rmtree # (if rmtree_ok env then [] else [Print RmtreeWarning]) \<and>
                  Rmtree \<notin> set pre \<and>
                  (Print (CommandOk (mount_cmd env img)) \<in> set pre \<longrightarrow> Ran (umount_cmd env) \<in> set pre))"
    proof (rule guarded_session [OF _ root um _ tmp])
      show "try_finally (try_except
             (seqs [mkdtemp env,
                    allocate_image env img size_mb,
                    run_command env [''mkfs.ext4'', ''-F'', img] True,
                    run_command env (mount_cmd env img) True,
                    run_command env (rsync_cmd env src) True])
             is_Exception critical_error) (release_mount env) fresh_host = (r, h')"
        using a root dir by (simp add: create_rootfs_ext4_image_def)
      show "\<And>h. session_inv env img h \<Longrightarrow> session_inv env img (snd (seqs [mkdtemp env,
                    allocate_image env img size_mb,
                    run_command env [''mkfs.ext4'', ''-F'', img] True,
                    run_command env (mount_cmd env img) True,
                    run_command env (rsync_cmd env src) True] h))"
        by (rule seqs_inv)
           (auto simp: mount_cmd_def rsync_cmd_def
                 intro: mkdtemp_inv allocate_image_inv run_command_inv)
    qed
    then show ?thesis by simp
  next
    assume a: "create_bootfs_vfat_image env img src size_mb = (r, h')"
    have "\<not> mp_mounted h' \<and> mp_exists h' = (\<not> rmtree_ok env) \<and>
           (\<exists>pre. events h' = pre @ Rmtree # (if rmtree_ok env then [] else [Print RmtreeWarning]) \<and>
                  Rmtree \<notin> set pre \<and>
                  (Print (CommandOk (mount_cmd env img)) \<in> set pre \<longrightarrow> Ran (umount_cmd env) \<in> set pre))"
    proof (rule guarded_session [OF _ root um _ tmp])
      show "try_finally (try_except
             (seqs [fetch_firmware env src,
                    require_boot_dir env,
                    mkdtemp env,
                    allocate_image env img size_mb,
                    run_command env [''mkfs.vfat'', ''-F'', ''32'', img] True,
                    run_command env (mount_cmd env img) True,
                    run_command env (rsync_cmd env (src @ ''/boot'')) True,
                    write_text env ''cmdline.txt'',
                    write_text env ''config.txt''])
             is_Exception critical_error) (release_mount env) fresh_host = (r, h')"
        using a root by (simp add: create_bootfs_vfat_image_def)
      show "\<And>h. session_inv env img h \<Longrightarrow> session_inv env img (snd (seqs [fetch_firmware env src,
                    require_boot_dir env,
                    mkdtemp env,
                    allocate_image env img size_mb,
                    run_command env [''mkfs.vfat'', ''-F'', ''32'', img] True,
                    run_command env (mount_cmd env img) True,
                    run_command env (rsync_cmd env (src @ ''/boot'')) True,
                    write_text env ''cmdline.txt'',
                    write_text env ''config.txt''] h))"
        by (rule seqs_inv)
           (auto simp: mount_cmd_def rsync_cmd_def
                 intro: mkdtemp_inv allocate_image_inv run_command_inv fetch_firmware_inv
                        require_boot_dir_inv write_text_inv)
    qed
    then show ?thesis by simp
  qed
qed


lemma image_cleanup_example:
  "temp_mount_point (snd (create_rootfs_ext4_image (root_env (failing ''rsync'' 23)) ''build/rootfs'' ''build/rootfs.ext4'' 512))
   \<and> fst (create_rootfs_ext4_image (root_env (failing ''rsync'' 23)) ''build/rootfs'' ''build/rootfs.ext4'' 512) = Inl (SystemExit 1)
   \<and> \<not> mp_exists (snd (create_rootfs_ext4_image (root_env (failing ''rsync'' 23)) ''build/rootfs'' ''build/rootfs.ext4'' 512))
   \<and> \<not> mp_mounted (snd (create_rootfs_ext4_image (root_env (failing ''rsync'' 23)) ''build/rootfs'' ''build/rootfs.ext4'' 512))"
proof -
  let ?e = "root_env (failing ''rsync'' 23)"
  let ?x = "create_rootfs_ext4_image ?e ''build/rootfs'' ''build/rootfs.ext4'' 512"
  have um: "proc_of ?e (umount_cmd ?e) = Exit 0"
    by (simp add: root_env_def failing_def umount_cmd_def)
  have ok: "rmtree_ok ?e"
    by (simp add: root_env_def)
  have tmp: "temp_mount_point (snd ?x)"
    by (simp add: host_defs)
  have r: "fst ?x = Inl (SystemExit 1)"
    by (simp add: host_defs)
  have res: "?x = (fst ?x, snd ?x) \<or> create_bootfs_vfat_image ?e ''build/rootfs.ext4'' ''build/rootfs'' 512 = (fst ?x, snd ?x)"
    by simp
  from image_cleanup [OF um res tmp] ok tmp r show ?thesis by simp
qed

section \<open>Device nodes\<close>

lemmas device_defs =
  create_device_nodes_def create_device_node_def try_except2_def mknod_if_missing_def
  device_nodes_def initramfs_device_nodes_def create_initramfs_def py_op_def
  require_busybox_def mknod_denied_def S_IFCHR_def S_IFBLK_def archive_pipeline_def


text \<open>
  C8 (device nodes are best-effort at every site). The claim holds for
  \<open>create_device_nodes\<close> and fails for the device nodes of the initramfs staging
  tree: with every \<open>os.mknod\<close> refused, \<open>create_device_nodes\<close> prints one warning per
  node and returns, while \<open>create_initramfs\<close> reports a critical error and ends the
  process with status 1 without any device-node warning.
\<close>

theorem initramfs_mknod_failure_aborts:
  "create_device_nodes mknod_denied ''build/rootfs'' fresh_host =
     (Inr (),
      \<lparr>events = map (\<lambda>name. Print (DeviceNodeWarning name))
                   [''console'', ''null'', ''zero'', ''random'', ''urandom'', ''tty'', ''tty0'', ''tty1''],
       temp_mount_point = False, mp_exists = False, mp_mounted = False\<rparr>)
   \<and> fst (create_initramfs mknod_denied ''build/initramfs.gz'') = Inl (SystemExit 1)
   \<and> Print CriticalError \<in> set (events (snd (create_initramfs mknod_denied ''build/initramfs.gz'')))
   \<and> Print (DeviceNodeWarning ''console'')
        \<notin> set (events (snd (create_initramfs mknod_denied ''build/initramfs.gz'')))"
  by (simp add: device_defs host_defs)


text \<open>
  The first site is best-effort in general: whatever \<open>OSError\<close> \<open>os.mknod\<close>
  raises, \<open>create_device_nodes\<close> returns normally.
\<close>

lemma create_device_node_never_aborts:
  assumes "\<And>p e. mknod_raises env p = Some e \<Longrightarrow> is_OSError e"
  shows "fst (create_device_node env dev_dir node h) = Inr ()"
proof (cases "mknod_if_missing env dev_dir node h")
  case (Pair r h')
  show ?thesis
  proof (cases r)
    case (Inl e)
    with Pair obtain p where "mknod_raises env p = Some e"
      by (auto simp: mknod_if_missing_def Let_def split: prod.splits if_splits option.splits)
    then have "is_OSError e" by (rule assms)
    with Pair Inl show ?thesis
      by (cases e) (simp_all add: create_device_node_def try_except2_def printing_def say_def)
  next
    case (Inr u)
    with Pair show ?thesis
      by (simp add: create_device_node_def try_except2_def)
  qed
qed

lemma seqs_never_abort:
  assumes "\<And>f h. f \<in> set fs \<Longrightarrow> fst (f h) = Inr ()"
  shows "fst (seqs fs h) = Inr ()"
  using assms
proof (induction fs arbitrary: h)
  case Nil
  then show ?case by simp
next
  case (Cons f fs)
  obtain r h' where f: "f h = (r, h')" by (cases "f h")
  with Cons.prems [of f h] have "r = Inr ()" by simp
  with f Cons show ?case by (simp add: seq_def)
qed

lemma create_device_nodes_never_aborts:
  assumes "\<And>p e. mknod_raises env p = Some e \<Longrightarrow> is_OSError e"
  shows "fst (create_device_nodes env rootfs h) = Inr ()"
  unfolding create_device_nodes_def
  by (rule seqs_never_abort) (auto simp: create_device_node_never_aborts [OF assms])


text \<open>
  With every tool and file operation succeeding, \<open>create_initramfs\<close> still fails at
  the archive step: the \<open>CalledProcessError\<close> it builds from the process it never
  waited for cannot be formatted by the handler, and the call ends in \<open>TypeError\<close>
  before the archive is written.
\<close>

lemma create_initramfs_archive_step_raises:
  "fst (create_initramfs (root_env (\<lambda>c. Exit 0)) ''build/initramfs.gz'') = Inl TypeError
   \<and> Did ''write cpio archive''
        \<notin> set (events (snd (create_initramfs (root_env (\<lambda>c. Exit 0)) ''build/initramfs.gz'')))"
  by (simp add: host_defs device_defs)

section \<open>Directory scaffold\<close>

lemmas scaffold_defs =
  create_dirs_def and_then_def mkdir_parents.simps mkdir_plain_def os_mkdir_def os_chmod_def
  is_dir_def build_dir_def rootfs_dir_def rootfs_dirs_def pjoin_def components_def
  startswith_def fresh_fs_def


text \<open>
  C5 (the scaffold builder succeeds on a fresh root). The claim fails on the code:
  \<open>tmp\<close> is not in \<open>rootfs_dirs\<close>, so on a fresh output root every \<open>mkdir\<close> succeeds
  and the first \<open>os.chmod\<close>, on \<open>build/rootfs/tmp\<close>, raises \<open>FileNotFoundError\<close>.
\<close>

theorem create_dirs_fresh_root_fails:
  "create_dirs dir_mode fresh_fs = Inl FileNotFoundError \<and> ''tmp'' \<notin> set rootfs_dirs"
  by (simp add: scaffold_defs)


section \<open>Dependency resolver\<close>

lemma first_existing_None:
  "\<forall>d\<in>set dirs. \<not> path_exists sr (pjoin d l) \<Longrightarrow> first_existing sr dirs l = None"
  by (induction dirs) simp_all

lemma first_existing_Some:
  "\<exists>d\<in>set dirs. path_exists sr (pjoin d l) \<Longrightarrow> \<exists>p. first_existing sr dirs l = Some p"
  by (induction dirs) auto

lemma pjoin_libc: "pjoin d ''libc.so.6'' = d @ [''libc.so.6'']"
  by (simp add: pjoin_def components_def startswith_def)

lemma pjoin_libm: "pjoin d ''libm.so.6'' = d @ [''libm.so.6'']"
  by (simp add: pjoin_def components_def startswith_def)

lemma two_element_list:
  assumes "distinct xs" and "set xs = {a, b}" and "a \<noteq> b"
  shows "xs = [a, b] \<or> xs = [b, a]"
proof -
  from assms have "length xs = 2"
    using distinct_card [of xs] by simp
  then obtain x y where xs: "xs = [x, y]"
    by (cases xs; cases "tl xs") auto
  with assms show ?thesis
    by (auto simp: doubleton_eq_iff)
qed

lemma find_dynamic_libraries_distinct:
  "distinct (fst (find_dynamic_libraries sr cross_prefix binary_path cross_compiler_root))"
  by (simp add: find_dynamic_libraries_def split: readelf_result.splits prod.splits)

lemmas resolver_defs =
  find_dynamic_libraries_def parse_needed_def search_paths_def rstrip_dash_def libc_only_def
  List.map_filter_def startswith_def Let_def pjoin_def components_def


text \<open>
  C6 (one path, one warning, no duplicates). For every input the returned list has no
  duplicates. When \<open>readelf\<close> declares exactly \<open>libc.so.6\<close> and \<open>libm.so.6\<close> as
  needed, the sysroot is configured, some candidate directory holds \<open>libc.so.6\<close> and
  none holds \<open>libm.so.6\<close>, the resolver returns exactly one path and prints, after
  the list of candidate directories, exactly one warning, for \<open>libm.so.6\<close>.
\<close>

theorem resolver_one_path_one_warning:
  "distinct (fst (find_dynamic_libraries sr cross_prefix binary_path cross_compiler_root))
   \<and> (readelf sr binary_path = ReadelfOutput lines
       \<and> set (parse_needed lines) = {''libc.so.6'', ''libm.so.6''}
       \<and> cross_compiler_root \<noteq> []
       \<and> (\<exists>d\<in>set (search_paths sr cross_prefix cross_compiler_root).
             path_exists sr (d @ [''libc.so.6'']))
       \<and> (\<forall>d\<in>set (search_paths sr cross_prefix cross_compiler_root).
             \<not> path_exists sr (d @ [''libm.so.6'']))
       \<longrightarrow> length (fst (find_dynamic_libraries sr cross_prefix binary_path cross_compiler_root)) = 1
           \<and> snd (find_dynamic_libraries sr cross_prefix binary_path cross_compiler_root)
               = [SearchingIn (search_paths sr cross_prefix cross_compiler_root),
                  LibraryNotFound ''libm.so.6''])"
proof (intro conjI impI)
  show "distinct (fst (find_dynamic_libraries sr cross_prefix binary_path cross_compiler_root))"
    by (rule find_dynamic_libraries_distinct)
next
  let ?dirs = "search_paths sr cross_prefix cross_compiler_root"
  assume h: "readelf sr binary_path = ReadelfOutput lines
       \<and> set (parse_needed lines) = {''libc.so.6'', ''libm.so.6''}
       \<and> cross_compiler_root \<noteq> []
       \<and> (\<exists>d\<in>set ?dirs. path_exists sr (d @ [''libc.so.6'']))
       \<and> (\<forall>d\<in>set ?dirs. \<not> path_exists sr (d @ [''libm.so.6'']))"
  then obtain p where libc: "first_existing sr ?dirs ''libc.so.6'' = Some p"
    using first_existing_Some [of ?dirs sr "''libc.so.6''"] by (auto simp: pjoin_libc)
  from h have libm: "first_existing sr ?dirs ''libm.so.6'' = None"
    using first_existing_None [of ?dirs sr "''libm.so.6''"] by (simp add: pjoin_libm)
  have "distinct (parse_needed lines)"
    by (simp add: parse_needed_def)
  with h have "parse_needed lines = [''libc.so.6'', ''libm.so.6'']
               \<or> parse_needed lines = [''libm.so.6'', ''libc.so.6'']"
    by (intro two_element_list) simp_all
  then have r: "resolve_all sr ?dirs (parse_needed lines) = ([p], [LibraryNotFound ''libm.so.6''])"
    using libc libm by auto
  from h r
  show "length (fst (find_dynamic_libraries sr cross_prefix binary_path cross_compiler_root)) = 1"
    by (simp add: find_dynamic_libraries_def)
  from h r
  show "snd (find_dynamic_libraries sr cross_prefix binary_path cross_compiler_root)
               = [SearchingIn ?dirs, LibraryNotFound ''libm.so.6'']"
    by (simp add: find_dynamic_libraries_def)
qed

theorem resolver_one_path_one_warning_witness:
  "fst (find_dynamic_libraries libc_only ''aarch64-linux-gnu-'' ''build/rootfs/bin/busybox'' ''/usr'')
     = [[''/usr'', ''aarch64-linux-gnu'', ''lib'', ''libc.so.6'']]
   \<and> length (fst (find_dynamic_libraries libc_only ''aarch64-linux-gnu-'' ''build/rootfs/bin/busybox'' ''/usr'')) = 1
   \<and> snd (find_dynamic_libraries libc_only ''aarch64-linux-gnu-'' ''build/rootfs/bin/busybox'' ''/usr'')
       = [SearchingIn (search_paths libc_only ''aarch64-linux-gnu-'' ''/usr''),
          LibraryNotFound ''libm.so.6'']"
proof -
  let ?lines = "[''Dynamic section at offset 0xf0d28 contains 26 entries:'',
         ''  Tag        Type                         Name/Value'',
         '' 0x0000000000000001 (NEEDED)             Shared library: [libm.so.6]'',
         '' 0x0000000000000001 (NEEDED)             Shared library: [libc.so.6]'',
         '' 0x000000000000000c (INIT)               0x5a40'']"
  have a: "readelf libc_only ''build/rootfs/bin/busybox'' = ReadelfOutput ?lines"
    by (simp add: libc_only_def)
  have b: "set (parse_needed ?lines) = {''libc.so.6'', ''libm.so.6''}"
    by (simp add: resolver_defs) auto
  have c: "''/usr'' \<noteq> []" by simp
  have d: "\<exists>d\<in>set (search_paths libc_only ''aarch64-linux-gnu-'' ''/usr'').
             path_exists libc_only (d @ [''libc.so.6''])"
    by (simp add: resolver_defs)
  have e: "\<forall>d\<in>set (search_paths libc_only ''aarch64-linux-gnu-'' ''/usr'').
             \<not> path_exists libc_only (d @ [''libm.so.6''])"
    by (simp add: resolver_defs)
  have f: "fst (find_dynamic_libraries libc_only ''aarch64-linux-gnu-'' ''build/rootfs/bin/busybox'' ''/usr'')
     = [[''/usr'', ''aarch64-linux-gnu'', ''lib'', ''libc.so.6'']]"
    by (simp add: resolver_defs)
  from resolver_one_path_one_warning
         [of libc_only "''aarch64-linux-gnu-''" "''build/rootfs/bin/busybox''" "''/usr''" ?lines]
       a b c d e f
  show ?thesis by blast
qed


section \<open>Permission classifier\<close>

text \<open>
  Pass 2 is one loop over the listed names, each of which sets the mode of one file or
  of none; the mode of a file after the loop is the one set through the last name
  that set it. Pass 3 only touches directories.
\<close>

lemma chmod_file_write:
  "chmod_file t base q m =
     (case file_write t base q of None \<Rightarrow> m | Some (i, mode) \<Rightarrow> m(i \<mapsto> mode))"
  by (simp add: chmod_file_def file_write_def try_chmod_def split: sum.splits option.splits)

lemma fold_walk_listed:
  "fold (\<lambda>(dirpath, dirnames, filenames) m.
           fold (\<lambda>filename. g (dirpath @ [filename])) filenames m) w m
   = fold g (concat (map (\<lambda>(dirpath, dirnames, filenames).
                            map (\<lambda>filename. dirpath @ [filename]) filenames) w)) m"
  by (induction w arbitrary: m) (auto simp: fold_map comp_def)

lemma chmod_files_listed:
  "chmod_files t base m = fold (chmod_file t base) (listed_files t) m"
  by (simp add: chmod_files_def listed_files_def fold_walk_listed)

lemma fold_last_write:
  assumes "filter (\<lambda>q. map_option fst (file_write t base q) = Some i) names \<noteq> []"
  shows "fold (chmod_file t base) names m i =
           map_option snd (file_write t base
              (last (filter (\<lambda>q. map_option fst (file_write t base q) = Some i) names)))"
  using assms
proof (induction names rule: rev_induct)
  case Nil
  then show ?case by simp
next
  case (snoc q names)
  show ?case
  proof (cases "map_option fst (file_write t base q) = Some i")
    case True
    then obtain mode where "file_write t base q = Some (i, mode)"
      by (cases "file_write t base q") auto
    with True show ?thesis by (simp add: chmod_file_write)
  next
    case False
    with snoc.prems have ne: "filter (\<lambda>q. map_option fst (file_write t base q) = Some i) names \<noteq> []"
      by simp
    from False have "chmod_file t base q (fold (chmod_file t base) names m) i
                       = fold (chmod_file t base) names m i"
      by (cases "file_write t base q") (auto simp: chmod_file_write)
    with False snoc.IH [OF ne] show ?thesis by simp
  qed
qed

lemma chmod_if_dir_other:
  "kind t i \<noteq> Directory \<Longrightarrow> chmod_if_dir t mode q m i = m i"
  by (auto simp: chmod_if_dir_def try_chmod_def isdir_def split: option.splits)

lemma apply_overrides_other:
  "kind t i \<noteq> Directory \<Longrightarrow> apply_overrides t base m i = m i"
  by (simp add: apply_overrides_def chmod_if_dir_other)

lemma file_write_rule:
  assumes "file_write t base (dirpath @ [filename]) = Some (i, mode)"
  shows "mode = (if path_name dirpath \<in> {''bin'', ''sbin''}
                    \<or> (endswith filename ''.sh'' \<and> kind t i = Regular
                        \<and> contains (content t i) ''#!/bin/sh'')
                    \<or> (filename = ''rcS'' \<and> path_name dirpath = ''init.d'')
                    \<or> (filename = ''init'' \<and> dirpath = base)
                 then 493 else 420)"
  using assms
  by (auto simp: file_write_def classify_def by_name_def path_name_def isfile_def read_bytes_def
                 Let_def
           split: sum.splits option.splits if_splits)

lemmas classifier_defs =
  set_rootfs_permissions_def apply_overrides_def chmod_if_dir_def chmod_files_def chmod_file_def
  chmod_directories_def unclobbered_dirs_def classify_def by_name_def try_chmod_def path_name_def
  isdir_def isfile_def read_bytes_def linked_tree_def endswith_def startswith_def Let_def
  effective_names_def listed_files_def file_write_def


text \<open>
  C7 (modes after the classifier), as the code has it. The mode of a file that is not
  a directory, after all three passes, is the one that pass 2 sets through the last
  name, in the order of the walk, under which the walk lists the file and neither
  \<open>read_bytes\<close> nor \<open>os.chmod\<close> raises; hard links and symbolic links to the file
  are names of it. That mode is \<open>0o755\<close> when the directory of that name is named
  \<open>bin\<close> or \<open>sbin\<close>, when the name ends in \<open>.sh\<close> and the file is a regular file that
  contains \<open>#!/bin/sh\<close>, when the name is \<open>rcS\<close> in a directory named \<open>init.d\<close>, or
  when it is \<open>init\<close> in the root of the tree; otherwise it is \<open>0o644\<close>.
\<close>

theorem classifier_modes:
  assumes "effective_names t rootfs_base_dir i \<noteq> []"
    and "last (effective_names t rootfs_base_dir i) = dirpath @ [filename]"
    and "kind t i \<noteq> Directory"
  shows "set_rootfs_permissions t rootfs_base_dir m i =
     Some (if path_name dirpath \<in> {''bin'', ''sbin''}
             \<or> (endswith filename ''.sh'' \<and> kind t i = Regular
                 \<and> contains (content t i) ''#!/bin/sh'')
             \<or> (filename = ''rcS'' \<and> path_name dirpath = ''init.d'')
             \<or> (filename = ''init'' \<and> dirpath = rootfs_base_dir)
           then 493 else 420)"
proof -
  let ?names = "effective_names t rootfs_base_dir i"
  let ?m1 = "chmod_directories t rootfs_base_dir m"
  from assms(1) have "last ?names \<in> set ?names" by simp
  with assms(2) have "map_option fst (file_write t rootfs_base_dir (dirpath @ [filename])) = Some i"
    by (simp add: effective_names_def)
  then obtain mode where w: "file_write t rootfs_base_dir (dirpath @ [filename]) = Some (i, mode)"
    by (cases "file_write t rootfs_base_dir (dirpath @ [filename])") auto
  have "chmod_files t rootfs_base_dir ?m1 i
          = map_option snd (file_write t rootfs_base_dir (last ?names))"
    using fold_last_write [of t rootfs_base_dir i "listed_files t" ?m1] assms(1)
    by (simp add: chmod_files_listed effective_names_def)
  with assms(2) w have "chmod_files t rootfs_base_dir ?m1 i = Some mode" by simp
  with apply_overrides_other [OF assms(3)] file_write_rule [OF w]
  show ?thesis by (simp add: set_rootfs_permissions_def)
qed

theorem classifier_modes_witness:
  "effective_names linked_tree [''build'', ''rootfs''] 10
     = [[''build'', ''rootfs'', ''linuxrc''],
        [''build'', ''rootfs'', ''bin'', ''busybox''],
        [''build'', ''rootfs'', ''bin'', ''sh'']]
   \<and> set_rootfs_permissions linked_tree [''build'', ''rootfs''] Map.empty 10 = Some 493"
proof -
  have a: "effective_names linked_tree [''build'', ''rootfs''] 10
     = [[''build'', ''rootfs'', ''linuxrc''],
        [''build'', ''rootfs'', ''bin'', ''busybox''],
        [''build'', ''rootfs'', ''bin'', ''sh'']]"
    by (simp add: classifier_defs)
  then have b: "effective_names linked_tree [''build'', ''rootfs''] 10 \<noteq> []"
    and c: "last (effective_names linked_tree [''build'', ''rootfs''] 10)
              = [''build'', ''rootfs'', ''bin''] @ [''sh'']"
    by simp_all
  have d: "kind linked_tree 10 \<noteq> Directory"
    by (simp add: linked_tree_def)
  from classifier_modes [OF b c d, of Map.empty] a
  show ?thesis by (simp add: path_name_def)
qed


text \<open>
  C7 as stated fails on both counts. \<open>etc/hello\<close> starts with a shebang line but is
  not named \<open>*.sh\<close>: its mode is \<open>0o644 = 420\<close>. And \<open>bin/tool\<close> lies in \<open>bin\<close>, but
  the walk lists the same file again, later, as \<open>usr/share/tool\<close>: the last name
  decides, and its mode is \<open>0o644\<close> too.
\<close>

theorem shebang_or_linked_file_gets_0644:
  "resolve linked_tree [''build'', ''rootfs'', ''etc'', ''hello''] = Some 12
   \<and> kind linked_tree 12 = Regular
   \<and> startswith (content linked_tree 12) ''#!''
   \<and> set_rootfs_permissions linked_tree [''build'', ''rootfs''] Map.empty 12 = Some 420
   \<and> resolve linked_tree [''build'', ''rootfs'', ''bin'', ''tool''] = Some 11
   \<and> kind linked_tree 11 = Regular
   \<and> set_rootfs_permissions linked_tree [''build'', ''rootfs''] Map.empty 11 = Some 420"
  by (simp add: classifier_defs)


end
